theory Spec2Isabelle
  imports Main
begin

section \<open>JavaScript values\<close>

text \<open>
  The gateway is an Express application (\<^verbatim>\<open>api-gateway/server.js\<close>) with five router
  modules, one per backend service. Each router module declares one forwarding handler
  (\<^verbatim>\<open>forwardToAuthService\<close>, \<^verbatim>\<open>forwardToTaskService\<close>, ...) and registers it on a list of
  routes. The five handlers are the same text up to the service's constant and three
  string literals, so the model has one handler with the service as an argument.

  Request bodies, parsed query strings and response payloads are JSON values. Numbers
  are restricted to integers here.
\<close>

datatype json =
    JNull
  | JBool bool
  | JNum int
  | JStr string
  | JArr "json list"
  | JObj "(string \<times> json) list"

text \<open>A property that may be \<^verbatim>\<open>undefined\<close>: \<^verbatim>\<open>req.ip\<close>, \<^verbatim>\<open>req.get("host")\<close>, a header value.\<close>

datatype jsval = Undefined | Str string

text \<open>
  \<^verbatim>\<open>a || b\<close> on a string that may be undefined: the right operand is taken when the left
  one is undefined or the empty string (both are falsy).
\<close>

definition js_or :: "string option \<Rightarrow> string \<Rightarrow> string" where
  "js_or a b = (case a of None \<Rightarrow> b | Some s \<Rightarrow> if s = [] then b else s)"

definition js_or_num :: "nat option \<Rightarrow> nat \<Rightarrow> nat" where
  "js_or_num a b = (case a of None \<Rightarrow> b | Some n \<Rightarrow> if n = 0 then b else n)"

subsection \<open>\<^verbatim>\<open>JSON.stringify\<close>\<close>

definition digit_char :: "nat \<Rightarrow> char" where
  "digit_char d = char_of (48 + d)"

fun show_nat :: "nat \<Rightarrow> string" where
  "show_nat n =
     (if n < 10 then [digit_char n] else show_nat (n div 10) @ [digit_char (n mod 10)])"

declare show_nat.simps [simp del]

definition show_int :: "int \<Rightarrow> string" where
  "show_int i = (if i < 0 then CHR ''-'' # show_nat (nat (- i)) else show_nat (nat i))"

fun join :: "string \<Rightarrow> string list \<Rightarrow> string" where
  "join sep [] = []"
| "join sep [x] = x"
| "join sep (x # y # ys) = x @ sep @ join sep (y # ys)"

definition hex_char :: "nat \<Rightarrow> char" where
  "hex_char d = (if d < 10 then char_of (48 + d) else char_of (87 + d))"

text \<open>The double quote is \<open>CHR 0x22\<close>, the backslash \<open>CHR 0x5C\<close>.\<close>

definition escape_char :: "char \<Rightarrow> string" where
  "escape_char c =
     (if c = CHR 0x22 then [CHR 0x5C, CHR 0x22]
      else if c = CHR 0x5C then [CHR 0x5C, CHR 0x5C]
      else if c = CHR 0x08 then [CHR 0x5C, CHR ''b'']
      else if c = CHR 0x0C then [CHR 0x5C, CHR ''f'']
      else if c = CHR 0x0A then [CHR 0x5C, CHR ''n'']
      else if c = CHR 0x0D then [CHR 0x5C, CHR ''r'']
      else if c = CHR 0x09 then [CHR 0x5C, CHR ''t'']
      else if (of_char c :: nat) < 32
        then [CHR 0x5C, CHR ''u'', CHR ''0'', CHR ''0'',
              hex_char (of_char c div 16), hex_char (of_char c mod 16)]
      else [c])"

definition quote :: "string \<Rightarrow> string" where
  "quote s = CHR 0x22 # concat (map escape_char s) @ [CHR 0x22]"

fun JSON_stringify :: "json \<Rightarrow> string" where
  "JSON_stringify JNull = ''null''"
| "JSON_stringify (JBool b) = (if b then ''true'' else ''false'')"
| "JSON_stringify (JNum i) = show_int i"
| "JSON_stringify (JStr s) = quote s"
| "JSON_stringify (JArr vs) = ''['' @ join '','' (map JSON_stringify vs) @ '']''"
| "JSON_stringify (JObj kvs) =
     ''{'' @ join '','' (map (\<lambda>(k, v). quote k @ '':'' @ JSON_stringify v) kvs) @ ''}''"

section \<open>The service registry\<close>

text \<open>
  Every router module starts with
  \<^verbatim>\<open>const AUTH_SERVICE_URL = process.env.AUTH_SERVICE_URL || "http://localhost:3001";\<close>
  (and likewise for the other four), evaluated once, when \<^verbatim>\<open>server.js\<close> requires the
  module. The \<^verbatim>\<open>/health\<close> handler of \<^verbatim>\<open>server.js\<close> evaluates the same five expressions
  again on every request.
\<close>

datatype service = Auth | Task | Notification | Reporting | Admin

definition all_services :: "service list" where
  "all_services = [Auth, Task, Notification, Reporting, Admin]"

type_synonym env = "string \<rightharpoonup> string"

fun env_var :: "service \<Rightarrow> string" where
  "env_var Auth = ''AUTH_SERVICE_URL''"
| "env_var Task = ''TASK_SERVICE_URL''"
| "env_var Notification = ''NOTIFICATION_SERVICE_URL''"
| "env_var Reporting = ''REPORTING_SERVICE_URL''"
| "env_var Admin = ''ADMIN_SERVICE_URL''"

fun default_url :: "service \<Rightarrow> string" where
  "default_url Auth = ''http://localhost:3001''"
| "default_url Task = ''http://localhost:3002''"
| "default_url Notification = ''http://localhost:3003''"
| "default_url Reporting = ''http://localhost:3004''"
| "default_url Admin = ''http://localhost:3005''"

definition service_url :: "env \<Rightarrow> service \<Rightarrow> string" where
  "service_url e s = js_or (e (env_var s)) (default_url s)"

text \<open>
  The module constants, as a table. It is built from the environment of the moment the
  modules are loaded and is the only thing the forwarding handlers read.
\<close>

type_synonym registry = "service \<Rightarrow> string"

definition load_registry :: "env \<Rightarrow> registry" where
  "load_registry e = (\<lambda>s. service_url e s)"

section \<open>Requests and the outbound call\<close>

datatype http_method = GET | HEAD | POST | PUT | DELETE | PATCH | OTHER string

fun method_name :: "http_method \<Rightarrow> string" where
  "method_name GET = ''GET''"
| "method_name HEAD = ''HEAD''"
| "method_name POST = ''POST''"
| "method_name PUT = ''PUT''"
| "method_name DELETE = ''DELETE''"
| "method_name PATCH = ''PATCH''"
| "method_name (OTHER m) = m"

text \<open>
  The fields of Express's \<^verbatim>\<open>req\<close> that the gateway reads. \<^verbatim>\<open>req.url\<close> is relative to the
  router that is handling the request; \<^verbatim>\<open>req.originalUrl\<close> is the URL as received. Node
  delivers header names in lower case.
\<close>

record request =
  req_method :: http_method
  req_url :: string
  req_originalUrl :: string
  req_body :: json
  req_query :: json
  req_headers :: "string \<rightharpoonup> string"
  req_ip :: jsval
  req_protocol :: string

text \<open>\<^verbatim>\<open>req.get(name)\<close> for a lower-case name other than \<^verbatim>\<open>referer\<close>: the header, if any.\<close>

definition req_get :: "request \<Rightarrow> string \<Rightarrow> jsval" where
  "req_get req name = (case req_headers req name of None \<Rightarrow> Undefined | Some v \<Rightarrow> Str v)"

text \<open>The object handed to \<^verbatim>\<open>axios\<close>; \<open>config_method\<close> is its key \<^verbatim>\<open>method\<close>.\<close>

record axios_config =
  config_method :: http_method
  url :: string
  data :: json
  params :: json
  headers :: "string \<rightharpoonup> jsval"

text \<open>
  \<^verbatim>\<open>{ ...headers, "x-forwarded-for": req.ip, "x-forwarded-proto": req.protocol,
     "x-forwarded-host": req.get("host") }\<close>:
  the spread copies every inbound header, then the three keys are assigned.
\<close>

definition forward_headers :: "request \<Rightarrow> (string \<rightharpoonup> jsval)" where
  "forward_headers req =
     (\<lambda>k. map_option Str (req_headers req k))
       (''x-forwarded-for'' \<mapsto> req_ip req,
        ''x-forwarded-proto'' \<mapsto> Str (req_protocol req),
        ''x-forwarded-host'' \<mapsto> req_get req ''host'')"

definition forward_config :: "string \<Rightarrow> request \<Rightarrow> axios_config" where
  "forward_config base req =
     \<lparr> config_method = req_method req,
       url = base @ req_url req,
       data = req_body req,
       params = req_query req,
       headers = forward_headers req \<rparr>"

subsection \<open>What \<^verbatim>\<open>axios\<close> gives back\<close>

text \<open>
  The awaited \<^verbatim>\<open>axios(config)\<close> settles in one of three ways: it resolves with a response
  whose status is 2xx; it rejects with an error that carries the response (any other
  status); it rejects with an error without a response (connection refused, DNS failure,
  socket error). The exchange with the backend is a parameter of the model: \<open>net\<close>
  maps the outbound request to what came back. \<^verbatim>\<open>response.data\<close> is the body as decoded by
  axios (\<open>transformResponse\<close>, also a parameter). Redirects that axios follows by itself
  belong to the exchange. The handlers set no timeout; a call that never settles has no
  outcome and is not modelled.
\<close>

record http_message =
  msg_status :: nat
  msg_body :: string

datatype net_result = Answered http_message | Failed string

record axios_response =
  status :: nat
  response_data :: json

record js_error =
  err_message :: string
  err_status :: "nat option"
  err_response :: "axios_response option"

record runtime =
  net :: "axios_config \<Rightarrow> net_result"
  transformResponse :: "string \<Rightarrow> json"
  now :: string
  process_env :: env

definition axios :: "runtime \<Rightarrow> axios_config \<Rightarrow> js_error + axios_response" where
  "axios rt config =
     (case net rt config of
        Failed reason \<Rightarrow>
          Inl \<lparr> err_message = reason, err_status = None, err_response = None \<rparr>
      | Answered m \<Rightarrow>
          (let response = \<lparr> status = msg_status m,
                             response_data = transformResponse rt (msg_body m) \<rparr>
           in if 200 \<le> msg_status m \<and> msg_status m < 300 then Inr response
              else Inl \<lparr> err_message =
                           ''Request failed with status code '' @ show_nat (msg_status m),
                         err_status = Some (msg_status m),
                         err_response = Some response \<rparr>))"

section \<open>The forwarding handler\<close>

text \<open>
  What a handler does is recorded as a trace: the outbound calls it made, the responses
  it sent with \<^verbatim>\<open>res.status(s).json(v)\<close>, and the lines it wrote with \<^verbatim>\<open>console.error\<close>.
  A statement yields the events it caused and either the error it threw or its value;
  statements in sequence stop at the first throw.
\<close>

datatype event =
    Outbound axios_config
  | Respond nat json
  | Logged string string

type_synonym 'a outcome = "event list \<times> (js_error + 'a)"

definition and_then :: "'a outcome \<Rightarrow> ('a \<Rightarrow> 'b outcome) \<Rightarrow> 'b outcome" where
  "and_then first rest =
     (case first of
        (evs, Inl error) \<Rightarrow> (evs, Inl error)
      | (evs, Inr x) \<Rightarrow> (case rest x of (evs', r) \<Rightarrow> (evs @ evs', r)))"

definition try_catch :: "'a outcome \<Rightarrow> (js_error \<Rightarrow> 'a outcome) \<Rightarrow> 'a outcome" where
  "try_catch block handler =
     (case block of
        (evs, Inr x) \<Rightarrow> (evs, Inr x)
      | (evs, Inl error) \<Rightarrow> (case handler error of (evs', r) \<Rightarrow> (evs @ evs', r)))"

definition await_axios :: "runtime \<Rightarrow> axios_config \<Rightarrow> axios_response outcome" where
  "await_axios rt config = ([Outbound config], axios rt config)"

definition res_status_json :: "nat \<Rightarrow> json \<Rightarrow> unit outcome" where
  "res_status_json s v = ([Respond s v], Inr ())"

definition console_error :: "string \<Rightarrow> string \<Rightarrow> unit outcome" where
  "console_error label message = ([Logged label message], Inr ())"

text \<open>
  The result of an \<^verbatim>\<open>async\<close> handler: its events, and the error it rejected with, if
  one left it.
\<close>

record run =
  trace :: "event list"
  uncaught :: "js_error option"

definition settle :: "unit outcome \<Rightarrow> run" where
  "settle out =
     \<lparr> trace = fst out,
       uncaught = (case snd out of Inl error \<Rightarrow> Some error | Inr _ \<Rightarrow> None) \<rparr>"

fun log_label :: "service \<Rightarrow> string" where
  "log_label Auth = ''Auth service error:''"
| "log_label Task = ''Task service error:''"
| "log_label Notification = ''Notification service error:''"
| "log_label Reporting = ''Reporting service error:''"
| "log_label Admin = ''Admin service error:''"

fun unavailable_error :: "service \<Rightarrow> string" where
  "unavailable_error Auth = ''Auth Service Unavailable''"
| "unavailable_error Task = ''Task Service Unavailable''"
| "unavailable_error Notification = ''Notification Service Unavailable''"
| "unavailable_error Reporting = ''Reporting Service Unavailable''"
| "unavailable_error Admin = ''Admin Service Unavailable''"

fun unavailable_message :: "service \<Rightarrow> string" where
  "unavailable_message Auth = ''Unable to connect to authentication service''"
| "unavailable_message Task = ''Unable to connect to task management service''"
| "unavailable_message Notification = ''Unable to connect to notification service''"
| "unavailable_message Reporting = ''Unable to connect to reporting service''"
| "unavailable_message Admin = ''Unable to connect to admin service''"

text \<open>The \<^verbatim>\<open>try\<close> block: build the config, await axios, relay status and data.\<close>

definition try_block :: "registry \<Rightarrow> runtime \<Rightarrow> service \<Rightarrow> request \<Rightarrow> unit outcome" where
  "try_block reg rt svc req =
     and_then (await_axios rt (forward_config (reg svc) req))
       (\<lambda>response. res_status_json (status response) (response_data response))"

text \<open>The \<^verbatim>\<open>catch\<close> block: log, then relay the error's response or answer 500.\<close>

definition catch_block :: "service \<Rightarrow> js_error \<Rightarrow> unit outcome" where
  "catch_block svc error =
     and_then (console_error (log_label svc) (err_message error))
       (\<lambda>_. case err_response error of
               Some r \<Rightarrow> res_status_json (status r) (response_data r)
             | None \<Rightarrow>
                 res_status_json 500
                   (JObj [(''error'', JStr (unavailable_error svc)),
                          (''message'', JStr (unavailable_message svc))]))"

definition forwardToService :: "registry \<Rightarrow> runtime \<Rightarrow> service \<Rightarrow> request \<Rightarrow> run" where
  "forwardToService reg rt svc req =
     settle (try_catch (try_block reg rt svc req) (catch_block svc))"






text \<open>Reading a trace.\<close>

fun outbound_calls :: "event list \<Rightarrow> axios_config list" where
  "outbound_calls [] = []"
| "outbound_calls (Outbound c # es) = c # outbound_calls es"
| "outbound_calls (_ # es) = outbound_calls es"

fun responses :: "event list \<Rightarrow> (nat \<times> json) list" where
  "responses [] = []"
| "responses (Respond s v # es) = (s, v) # responses es"
| "responses (_ # es) = responses es"

section \<open>Routing\<close>

text \<open>
  \<^verbatim>\<open>server.js\<close> registers, in this order: the middleware (helmet, cors, compression, the
  rate limiter, the logger, the body parsers), \<^verbatim>\<open>app.get("/health", ...)\<close>, the five routers
  under their mount paths, the catch-all \<^verbatim>\<open>app.use("*", ...)\<close> and the error handler.
  The model starts where the middleware has passed the request on: \<open>gateway\<close> is what
  the layers from \<^verbatim>\<open>/health\<close> on do with it.

  Express matches paths without the query string, ignoring letter case, and lets a
  route end with one optional slash. A mount path matches as a prefix that ends at a
  slash or at the end of the path. A segment \<^verbatim>\<open>:name\<close> of a route matches one non-empty
  segment. A route registered for GET also serves HEAD. Percent-decoding of the matched
  parameters is not part of the model.
\<close>

definition lower_char :: "char \<Rightarrow> char" where
  "lower_char c =
     (let n = (of_char c :: nat) in if 65 \<le> n \<and> n \<le> 90 then char_of (n + 32) else c)"

definition lower :: "string \<Rightarrow> string" where
  "lower s = map lower_char s"

definition pathname :: "string \<Rightarrow> string" where
  "pathname u = takeWhile (\<lambda>c. c \<noteq> CHR ''?'') u"

text \<open>The rest of the URL: the query string with its question mark, or nothing.\<close>

definition search :: "string \<Rightarrow> string" where
  "search u = dropWhile (\<lambda>c. c \<noteq> CHR ''?'') u"

fun split_on :: "char \<Rightarrow> string \<Rightarrow> string list" where
  "split_on c [] = [[]]"
| "split_on c (x # xs) =
     (if x = c then [] # split_on c xs
      else (case split_on c xs of
              [] \<Rightarrow> [[x]]
            | w # ws \<Rightarrow> (x # w) # ws))"

definition piece_match :: "string \<Rightarrow> string \<Rightarrow> bool" where
  "piece_match pat piece =
     (case pat of
        c # name \<Rightarrow> if c = CHR '':'' then piece \<noteq> [] else lower pat = lower piece
      | [] \<Rightarrow> piece = [])"

definition pieces_match :: "string \<Rightarrow> string \<Rightarrow> bool" where
  "pieces_match pat path = list_all2 piece_match (split_on CHR ''/'' pat) (split_on CHR ''/'' path)"

definition ends_with_slash :: "string \<Rightarrow> bool" where
  "ends_with_slash s = (s \<noteq> [] \<and> last s = CHR ''/'')"

definition route_match :: "string \<Rightarrow> string \<Rightarrow> bool" where
  "route_match pat path =
     (if ends_with_slash pat
      then pieces_match pat path \<or> pieces_match (butlast pat) path
      else pieces_match pat path \<or> (ends_with_slash path \<and> pieces_match pat (butlast path)))"

definition handles_method :: "http_method \<Rightarrow> http_method \<Rightarrow> bool" where
  "handles_method registered m = (m = registered \<or> (m = HEAD \<and> registered = GET))"

text \<open>
  How many characters a mount path takes off the front of the path, if it matches: the
  mount path itself, and the slash after it when that slash ends the path or is followed
  by another slash.
\<close>

definition mount_removed :: "string \<Rightarrow> string \<Rightarrow> nat option" where
  "mount_removed prefix path =
     (let n = length prefix in
      if lower (take n path) \<noteq> lower prefix then None
      else (case drop n path of
              [] \<Rightarrow> Some n
            | c # rest \<Rightarrow>
                if c \<noteq> CHR ''/'' then None
                else (case rest of
                        [] \<Rightarrow> Some (Suc n)
                      | d # _ \<Rightarrow> if d = CHR ''/'' then Some (Suc n) else Some n)))"

text \<open>Inside a mounted router \<^verbatim>\<open>req.url\<close> is the URL without what the mount path matched.\<close>

definition trim_prefix :: "nat \<Rightarrow> string \<Rightarrow> string" where
  "trim_prefix removed u =
     (case drop removed u of
        [] \<Rightarrow> ''/''
      | c # cs \<Rightarrow> if c = CHR ''/'' then c # cs else CHR ''/'' # c # cs)"

subsection \<open>The route tables of the five router modules\<close>

type_synonym route = "http_method \<times> string"

definition auth_routes :: "route list" where
  "auth_routes =
     [(POST, ''/register''), (POST, ''/login''), (POST, ''/logout''),
      (POST, ''/refresh-token''), (GET, ''/profile''), (PUT, ''/profile''),
      (POST, ''/forgot-password''), (POST, ''/reset-password''), (POST, ''/verify-email'')]"

definition task_routes :: "route list" where
  "task_routes =
     [(GET, ''/''), (POST, ''/''), (GET, ''/:id''), (PUT, ''/:id''), (DELETE, ''/:id''),
      (PATCH, ''/:id/status''), (PATCH, ''/:id/assign''), (GET, ''/user/:userId''),
      (GET, ''/project/:projectId''), (POST, ''/:id/comments''), (GET, ''/:id/comments'')]"

definition notification_routes :: "route list" where
  "notification_routes =
     [(POST, ''/send-email''), (POST, ''/send-sms''), (POST, ''/send-push''),
      (GET, ''/templates''), (POST, ''/templates''), (PUT, ''/templates/:id''),
      (DELETE, ''/templates/:id''), (GET, ''/history''), (GET, ''/history/:id'')]"

definition reporting_routes :: "route list" where
  "reporting_routes =
     [(GET, ''/dashboard''), (GET, ''/tasks/summary''), (GET, ''/users/performance''),
      (GET, ''/projects/status''), (POST, ''/generate-report''), (GET, ''/reports''),
      (GET, ''/reports/:id''), (GET, ''/analytics/task-completion''),
      (GET, ''/analytics/user-productivity''), (GET, ''/analytics/project-timeline'')]"

definition admin_routes :: "route list" where
  "admin_routes =
     [(GET, ''/users''), (GET, ''/users/:id''), (PUT, ''/users/:id''),
      (DELETE, ''/users/:id''), (POST, ''/users/:id/activate''),
      (POST, ''/users/:id/deactivate''), (GET, ''/system/health''), (GET, ''/system/logs''),
      (GET, ''/system/metrics''), (POST, ''/system/backup''), (GET, ''/audit-logs''),
      (GET, ''/audit-logs/:id'')]"

fun routes_of :: "service \<Rightarrow> route list" where
  "routes_of Auth = auth_routes"
| "routes_of Task = task_routes"
| "routes_of Notification = notification_routes"
| "routes_of Reporting = reporting_routes"
| "routes_of Admin = admin_routes"

definition mounts :: "(string \<times> service) list" where
  "mounts =
     [(''/api/auth'', Auth), (''/api/tasks'', Task), (''/api/notifications'', Notification),
      (''/api/reports'', Reporting), (''/api/admin'', Admin)]"

definition router_handles :: "route list \<Rightarrow> http_method \<Rightarrow> string \<Rightarrow> bool" where
  "router_handles rs m path = list_ex (\<lambda>(rm, pat). handles_method rm m \<and> route_match pat path) rs"

text \<open>
  The mounted routers in order. A router whose mount path matches but none of whose
  routes does passes the request on with \<^verbatim>\<open>req.url\<close> restored. The result is the service
  whose handler runs and the request as that handler sees it.
\<close>

fun route_request :: "(string \<times> service) list \<Rightarrow> request \<Rightarrow> (service \<times> request) option" where
  "route_request [] req = None"
| "route_request ((prefix, svc) # ms) req =
     (case mount_removed prefix (pathname (req_url req)) of
        None \<Rightarrow> route_request ms req
      | Some n \<Rightarrow>
          (let req' = req\<lparr> req_url := trim_prefix n (req_url req) \<rparr>
           in if router_handles (routes_of svc) (req_method req) (pathname (req_url req'))
              then Some (svc, req')
              else route_request ms req))"

section \<open>The application\<close>

text \<open>\<^verbatim>\<open>app.get("/health", ...)\<close>: a fixed body; the five URLs are read from \<^verbatim>\<open>process.env\<close>.\<close>

definition health :: "runtime \<Rightarrow> run" where
  "health rt =
     \<lparr> trace =
         [Respond 200
            (JObj [(''status'', JStr ''OK''),
                   (''message'', JStr ''API Gateway is running''),
                   (''timestamp'', JStr (now rt)),
                   (''services'',
                    JObj [(''auth'', JStr (service_url (process_env rt) Auth)),
                          (''task'', JStr (service_url (process_env rt) Task)),
                          (''notification'', JStr (service_url (process_env rt) Notification)),
                          (''reporting'', JStr (service_url (process_env rt) Reporting)),
                          (''admin'', JStr (service_url (process_env rt) Admin))])])],
       uncaught = None \<rparr>"

text \<open>The 404 handler, \<^verbatim>\<open>app.use("*", ...)\<close>.\<close>

definition not_found :: "request \<Rightarrow> run" where
  "not_found req =
     \<lparr> trace =
         [Respond 404
            (JObj [(''error'', JStr ''Route not found''),
                   (''message'',
                    JStr (''Cannot '' @ method_name (req_method req) @ '' '' @ req_originalUrl req))])],
       uncaught = None \<rparr>"

text \<open>
  The global error handler answers for an error that a handler lets escape:
  \<^verbatim>\<open>res.status(err.status || 500).json({ error: "Internal Server Error",
     message: err.message || "Something went wrong" })\<close>.
\<close>

definition error_handler :: "run \<Rightarrow> run" where
  "error_handler r =
     (case uncaught r of
        None \<Rightarrow> r
      | Some err \<Rightarrow>
          \<lparr> trace = trace r @
              [Logged ''Global error:'' (err_message err),
               Respond (js_or_num (err_status err) 500)
                 (JObj [(''error'', JStr ''Internal Server Error''),
                        (''message'', JStr (js_or (Some (err_message err)) ''Something went wrong''))])],
            uncaught = None \<rparr>)"

text \<open>
  Express sets \<^verbatim>\<open>req.originalUrl\<close> from \<^verbatim>\<open>req.url\<close> when the request enters the application.
  The layers are tried in the order of registration; the first whose handler runs ends
  the request, since no handler calls \<^verbatim>\<open>next\<close>.
\<close>

datatype target = Health | Forward service request | NotFound request

definition dispatch :: "request \<Rightarrow> target" where
  "dispatch req0 =
     (let req = req0\<lparr> req_originalUrl := req_url req0 \<rparr>
      in if handles_method GET (req_method req) \<and> route_match ''/health'' (pathname (req_url req))
         then Health
         else (case route_request mounts req of
                 Some (svc, req') \<Rightarrow> Forward svc req'
               | None \<Rightarrow> NotFound req))"

definition gateway :: "registry \<Rightarrow> runtime \<Rightarrow> request \<Rightarrow> run" where
  "gateway reg rt req0 =
     (case dispatch req0 of
        Health \<Rightarrow> health rt
      | Forward svc req \<Rightarrow> error_handler (forwardToService reg rt svc req)
      | NotFound req \<Rightarrow> not_found req)"

section \<open>The health-check script\<close>

text \<open>
  A stand-alone script, not part of the gateway process, probes the six processes:
  \<^verbatim>\<open>checkService\<close> sends \<^verbatim>\<open>GET /health\<close> to \<^verbatim>\<open>localhost\<close> at the service's port with a
  timeout of 5000 ms and resolves to a result in every case; \<^verbatim>\<open>checkAllServices\<close> awaits
  \<^verbatim>\<open>Promise.all(services.map(checkService))\<close>, clears \<^verbatim>\<open>allHealthy\<close> for each unhealthy
  result and exits with 0 or 1. What comes back from a probe and \<^verbatim>\<open>JSON.parse\<close> are
  parameters. The console output is left out.
\<close>

record service_entry =
  entry_name :: string
  entry_port :: nat
  entry_path :: string

definition services :: "service_entry list" where
  "services =
     [\<lparr> entry_name = ''API Gateway'', entry_port = 3000, entry_path = ''/health'' \<rparr>,
      \<lparr> entry_name = ''Auth Service'', entry_port = 3001, entry_path = ''/health'' \<rparr>,
      \<lparr> entry_name = ''Task Service'', entry_port = 3002, entry_path = ''/health'' \<rparr>,
      \<lparr> entry_name = ''Notification Service'', entry_port = 3003, entry_path = ''/health'' \<rparr>,
      \<lparr> entry_name = ''Reporting Service'', entry_port = 3004, entry_path = ''/health'' \<rparr>,
      \<lparr> entry_name = ''Admin Service'', entry_port = 3005, entry_path = ''/health'' \<rparr>]"

record http_options =
  opt_hostname :: string
  opt_port :: nat
  opt_path :: string
  opt_method :: http_method
  opt_timeout :: nat

datatype probe_outcome = Ended string | Errored string | TimedOut

datatype health_status = healthy | unhealthy

record check_result =
  result_name :: string
  result_status :: health_status
  result_port :: nat
  result_response :: "json option"
  result_error :: "string option"

definition check_options :: "service_entry \<Rightarrow> http_options" where
  "check_options service =
     \<lparr> opt_hostname = ''localhost'', opt_port = entry_port service,
       opt_path = entry_path service, opt_method = GET, opt_timeout = 5000 \<rparr>"

definition checkService ::
  "(string \<Rightarrow> json option) \<Rightarrow> (http_options \<Rightarrow> probe_outcome) \<Rightarrow> service_entry \<Rightarrow> check_result" where
  "checkService JSON_parse probe service =
     (case probe (check_options service) of
        Ended body \<Rightarrow>
          (case JSON_parse body of
             Some response \<Rightarrow>
               \<lparr> result_name = entry_name service, result_status = healthy,
                 result_port = entry_port service, result_response = Some response,
                 result_error = None \<rparr>
           | None \<Rightarrow>
               \<lparr> result_name = entry_name service, result_status = unhealthy,
                 result_port = entry_port service, result_response = None,
                 result_error = Some ''Invalid JSON response'' \<rparr>)
      | Errored message \<Rightarrow>
          \<lparr> result_name = entry_name service, result_status = unhealthy,
            result_port = entry_port service, result_response = None,
            result_error = Some message \<rparr>
      | TimedOut \<Rightarrow>
          \<lparr> result_name = entry_name service, result_status = unhealthy,
            result_port = entry_port service, result_response = None,
            result_error = Some ''Request timeout'' \<rparr>)"

record health_report =
  requests :: "http_options list"
  results :: "check_result list"
  allHealthy :: bool
  exit_code :: nat

text \<open>The \<^verbatim>\<open>forEach\<close> over the results, on the flag \<^verbatim>\<open>allHealthy\<close>.\<close>

fun all_healthy_loop :: "check_result list \<Rightarrow> bool \<Rightarrow> bool" where
  "all_healthy_loop [] flag = flag"
| "all_healthy_loop (r # rs) flag =
     all_healthy_loop rs (if result_status r = unhealthy then False else flag)"

definition checkAllServices ::
  "(string \<Rightarrow> json option) \<Rightarrow> (http_options \<Rightarrow> probe_outcome) \<Rightarrow> health_report" where
  "checkAllServices JSON_parse probe =
     (let rs = map (checkService JSON_parse probe) services;
          flag = all_healthy_loop rs True
      in \<lparr> requests = map check_options services, results = rs, allHealthy = flag,
           exit_code = (if flag then 0 else 1) \<rparr>)"

section \<open>Notions the properties are stated with\<close>

text \<open>
  A request is on a registered route when \<^verbatim>\<open>/health\<close> serves it or some router is mounted
  on a prefix of its path and has a route for the method and the rest of the path.
\<close>

definition on_registered_route :: "request \<Rightarrow> bool" where
  "on_registered_route req =
     ((handles_method GET (req_method req) \<and> route_match ''/health'' (pathname (req_url req))) \<or>
      list_ex
        (\<lambda>(prefix, svc).
           case mount_removed prefix (pathname (req_url req)) of
             None \<Rightarrow> False
           | Some n \<Rightarrow>
               router_handles (routes_of svc) (req_method req)
                 (pathname (trim_prefix n (req_url req))))
        mounts)"

text \<open>The name each service goes by (the health-check script's table has the same names).\<close>

fun display_name :: "service \<Rightarrow> string" where
  "display_name Auth = ''Auth Service''"
| "display_name Task = ''Task Service''"
| "display_name Notification = ''Notification Service''"
| "display_name Reporting = ''Reporting Service''"
| "display_name Admin = ''Admin Service''"

section \<open>Scenarios\<close>

text \<open>No environment variable set: every service at its default URL.\<close>

definition default_registry :: registry where
  "default_registry = load_registry Map.empty"

text \<open>No backend is listening: every call fails without a response.\<close>

definition dead_backend :: runtime where
  "dead_backend =
     \<lparr> net = (\<lambda>_. Failed ''connect ECONNREFUSED 127.0.0.1:3001''),
       transformResponse = (\<lambda>body. JStr body),
       now = ''2024-01-01T00:00:00.000Z'',
       process_env = Map.empty \<rparr>"

text \<open>A backend that answers every call with the given message; axios decodes with \<open>decode\<close>.\<close>

definition answering_backend :: "http_message \<Rightarrow> (string \<Rightarrow> json) \<Rightarrow> runtime" where
  "answering_backend m decode =
     \<lparr> net = (\<lambda>_. Answered m),
       transformResponse = decode,
       now = ''2024-01-01T00:00:00.000Z'',
       process_env = Map.empty \<rparr>"

definition login_request :: request where
  "login_request =
     \<lparr> req_method = POST,
       req_url = ''/api/auth/login'',
       req_originalUrl = [],
       req_body = JObj [(''email'', JStr ''a@b.c''), (''password'', JStr ''secret'')],
       req_query = JObj [],
       req_headers = [''host'' \<mapsto> ''localhost:3000'', ''authorization'' \<mapsto> ''Bearer abc''],
       req_ip = Str ''127.0.0.1'',
       req_protocol = ''http'' \<rparr>"

text \<open>The same request as \<^verbatim>\<open>forwardToAuthService\<close> receives it.\<close>

definition login_routed :: request where
  "login_routed = login_request\<lparr> req_originalUrl := ''/api/auth/login'', req_url := ''/login'' \<rparr>"

definition task_request :: request where
  "task_request =
     \<lparr> req_method = GET,
       req_url = ''/api/tasks/abc123?verbose=true'',
       req_originalUrl = [],
       req_body = JObj [],
       req_query = JObj [(''verbose'', JStr ''true'')],
       req_headers = [''host'' \<mapsto> ''localhost:3000''],
       req_ip = Str ''127.0.0.1'',
       req_protocol = ''http'' \<rparr>"

definition task_routed :: request where
  "task_routed =
     task_request\<lparr> req_originalUrl := ''/api/tasks/abc123?verbose=true'',
                    req_url := ''/abc123?verbose=true'' \<rparr>"

definition health_request :: request where
  "health_request =
     \<lparr> req_method = GET,
       req_url = ''/health'',
       req_originalUrl = [],
       req_body = JObj [],
       req_query = JObj [],
       req_headers = [''host'' \<mapsto> ''localhost:3000''],
       req_ip = Str ''127.0.0.1'',
       req_protocol = ''http'' \<rparr>"


text \<open>Probes for the script: the task service does not answer in time, the others do.\<close>

definition slow_task_probe :: "http_options \<Rightarrow> probe_outcome" where
  "slow_task_probe opts = (if opt_port opts = 3002 then TimedOut else Ended ''{}'')"

definition braces_only_parse :: "string \<Rightarrow> json option" where
  "braces_only_parse body = (if body = ''{}'' then Some (JObj []) else None)"

section \<open>The handler and the dispatcher, case by case\<close>

text \<open>What the handler does for each way the call can end.\<close>

lemma forward_failed:
  assumes "net rt (forward_config (reg svc) req) = Failed reason"
  shows "forwardToService reg rt svc req =
           \<lparr> trace = [Outbound (forward_config (reg svc) req),
                       Logged (log_label svc) reason,
                       Respond 500 (JObj [(''error'', JStr (unavailable_error svc)),
                                          (''message'', JStr (unavailable_message svc))])],
             uncaught = None \<rparr>"
  using assms
  by (simp add: forwardToService_def try_catch_def try_block_def catch_block_def and_then_def
      await_axios_def axios_def res_status_json_def console_error_def settle_def)

lemma forward_answered:
  assumes "net rt (forward_config (reg svc) req) = Answered m"
  shows "forwardToService reg rt svc req =
           \<lparr> trace =
               (if 200 \<le> msg_status m \<and> msg_status m < 300
                then [Outbound (forward_config (reg svc) req),
                      Respond (msg_status m) (transformResponse rt (msg_body m))]
                else [Outbound (forward_config (reg svc) req),
                      Logged (log_label svc)
                        (''Request failed with status code '' @ show_nat (msg_status m)),
                      Respond (msg_status m) (transformResponse rt (msg_body m))]),
             uncaught = None \<rparr>"
  using assms
  by (simp add: forwardToService_def try_catch_def try_block_def catch_block_def and_then_def
      await_axios_def axios_def res_status_json_def console_error_def settle_def Let_def)

lemma forward_uncaught: "uncaught (forwardToService reg rt svc req) = None"
  by (cases "net rt (forward_config (reg svc) req)") (simp_all add: forward_failed forward_answered)

lemma forward_calls:
  "outbound_calls (trace (forwardToService reg rt svc req)) = [forward_config (reg svc) req]"
  by (cases "net rt (forward_config (reg svc) req)") (simp_all add: forward_failed forward_answered)


lemma gateway_forward:
  assumes "dispatch req = Forward svc req'"
  shows "gateway reg rt req = forwardToService reg rt svc req'"
  using assms by (simp add: gateway_def error_handler_def forward_uncaught)

lemmas routing_defs =
  dispatch_def handles_method_def route_match_def pieces_match_def piece_match_def
  ends_with_slash_def pathname_def mounts_def mount_removed_def lower_def lower_char_def
  trim_prefix_def router_handles_def Let_def

lemma dispatch_login: "dispatch login_request = Forward Auth login_routed"
  by (simp add: login_request_def login_routed_def routing_defs auth_routes_def)

lemma dispatch_task: "dispatch task_request = Forward Task task_routed"
  by (simp add: task_request_def task_routed_def routing_defs auth_routes_def task_routes_def)

lemma dispatch_health: "dispatch health_request = Health"
  by (simp add: health_request_def routing_defs)

lemma gateway_health:
  assumes "dispatch req = Health"
  shows "gateway reg rt req = health rt"
  using assms by (simp add: gateway_def)

text \<open>
  The request a handler sees: the mount path is taken off \<^verbatim>\<open>req.url\<close>, nothing else changes,
  and the query string stays as it was.
\<close>

lemma route_request_some:
  assumes "route_request ms req = Some (svc, req')"
  shows "\<exists>prefix n. (prefix, svc) \<in> set ms
           \<and> mount_removed prefix (pathname (req_url req)) = Some n
           \<and> router_handles (routes_of svc) (req_method req)
                (pathname (trim_prefix n (req_url req)))
           \<and> req' = req\<lparr> req_url := trim_prefix n (req_url req) \<rparr>"
  using assms
proof (induction ms)
  case Nil
  then show ?case by simp
next
  case (Cons a ms)
  obtain prefix s where a: "a = (prefix, s)" by (cases a)
  show ?case
  proof (cases "mount_removed prefix (pathname (req_url req))")
    case None
    with Cons a show ?thesis by auto
  next
    case (Some n)
    show ?thesis
    proof (cases "router_handles (routes_of s) (req_method req)
                    (pathname (trim_prefix n (req_url req)))")
      case True
      with Cons.prems a Some have "svc = s" "req' = req\<lparr> req_url := trim_prefix n (req_url req) \<rparr>"
        by (simp_all add: Let_def)
      with a Some True show ?thesis by auto
    next
      case False
      with Cons.prems a Some have "route_request ms req = Some (svc, req')"
        by (simp add: Let_def)
      from Cons.IH [OF this] show ?thesis by auto
    qed
  qed
qed

lemma dispatch_forward:
  assumes "dispatch req = Forward svc req'"
  shows "\<exists>prefix n. (prefix, svc) \<in> set mounts
           \<and> mount_removed prefix (pathname (req_url req)) = Some n
           \<and> router_handles (routes_of svc) (req_method req)
                (pathname (trim_prefix n (req_url req)))
           \<and> req' = req\<lparr> req_originalUrl := req_url req, req_url := trim_prefix n (req_url req) \<rparr>"
proof -
  let ?req = "req\<lparr> req_originalUrl := req_url req \<rparr>"
  from assms have "route_request mounts ?req = Some (svc, req')"
    by (auto simp: dispatch_def Let_def split: if_splits option.splits prod.splits)
  from route_request_some [OF this] show ?thesis by simp
qed

lemma mount_removed_le:
  assumes "mount_removed prefix path = Some n"
  shows "n \<le> length path"
proof -
  let ?k = "length prefix"
  from assms have eq: "lower (take ?k path) = lower prefix"
    by (simp add: mount_removed_def Let_def split: if_splits)
  then have "length (take ?k path) = ?k"
    by (metis length_map lower_def)
  then have k: "?k \<le> length path" by simp
  show ?thesis
  proof (cases "drop ?k path")
    case Nil
    with assms eq k show ?thesis by (simp add: mount_removed_def Let_def)
  next
    case (Cons c rest)
    then have "?k < length path" by (metis drop_eq_Nil2 list.distinct(1) not_le)
    with assms eq Cons show ?thesis
      by (auto simp: mount_removed_def Let_def split: if_splits list.splits)
  qed
qed

lemma search_trim_prefix:
  assumes "n \<le> length (pathname u)"
  shows "search (trim_prefix n u) = search u"
proof -
  let ?P = "\<lambda>c. c \<noteq> CHR ''?''"
  have u: "u = pathname u @ search u" by (simp add: pathname_def search_def)
  have d: "drop n u = drop n (pathname u) @ search u"
    using assms by (subst u) simp
  have all: "\<forall>c \<in> set (drop n (pathname u)). ?P c"
    by (metis in_set_dropD pathname_def set_takeWhileD)
  have s: "dropWhile ?P (drop n u) = search u"
    using all by (simp add: d dropWhile_append search_def)
  show ?thesis
  proof (cases "drop n u")
    case Nil
    with s show ?thesis by (simp add: trim_prefix_def search_def)
  next
    case (Cons c cs)
    with s show ?thesis by (auto simp: trim_prefix_def search_def)
  qed
qed

text \<open>
  The query reaches axios twice: inside the URL, and parsed, as \<^verbatim>\<open>params\<close>.
\<close>

lemma forward_config_query:
  "search (url (forward_config base req)) = (if search base = [] then search (req_url req)
                                               else search base @ req_url req)
   \<and> params (forward_config base req) = req_query req"
proof -
  have "search (base @ u) = (if search base = [] then search u else search base @ u)" for u
    by (auto simp: search_def dropWhile_append dropWhile_eq_Nil_conv)
  then show ?thesis by (simp add: forward_config_def)
qed

text \<open>The dispatcher against the declarative notion of a registered route.\<close>

lemma route_request_none_iff:
  "(route_request ms req = None)
     = (\<not> list_ex
        (\<lambda>(prefix, svc).
           case mount_removed prefix (pathname (req_url req)) of
             None \<Rightarrow> False
           | Some n \<Rightarrow>
               router_handles (routes_of svc) (req_method req)
                 (pathname (trim_prefix n (req_url req))))
        ms)"
proof (induction ms)
  case Nil
  then show ?case by simp
next
  case (Cons a ms)
  obtain prefix svc where a: "a = (prefix, svc)" by (cases a)
  show ?case
  proof (cases "mount_removed prefix (pathname (req_url req))")
    case None
    with Cons a show ?thesis by simp
  next
    case (Some n)
    with Cons a show ?thesis by (simp add: Let_def)
  qed
qed

lemma dispatch_registered:
  "on_registered_route req
     = (dispatch req = Health \<or> (\<exists>svc r. dispatch req = Forward svc r))"
proof -
  let ?req = "req\<lparr> req_originalUrl := req_url req \<rparr>"
  have "(route_request mounts ?req = None)
     = (\<not> list_ex
        (\<lambda>(prefix, svc).
           case mount_removed prefix (pathname (req_url req)) of
             None \<Rightarrow> False
           | Some n \<Rightarrow>
               router_handles (routes_of svc) (req_method req)
                 (pathname (trim_prefix n (req_url req))))
        mounts)"
    using route_request_none_iff [of mounts ?req] by (simp cong: option.case_cong)
  then show ?thesis
    by (auto simp: on_registered_route_def dispatch_def Let_def split: option.splits)
qed



text \<open>Routing does not look at the headers.\<close>

lemma route_request_headers:
  "route_request ms (req\<lparr> req_headers := h \<rparr>)
     = map_option (\<lambda>(s, r). (s, r\<lparr> req_headers := h \<rparr>)) (route_request ms req)"
proof (induction ms)
  case Nil
  then show ?case by simp
next
  case (Cons a ms)
  obtain prefix s where a: "a = (prefix, s)" by (cases a)
  show ?case using Cons a by (simp add: Let_def split: option.splits)
qed

lemma dispatch_headers:
  "dispatch (req\<lparr> req_headers := h \<rparr>)
     = (case dispatch req of
          Health \<Rightarrow> Health
        | Forward s r \<Rightarrow> Forward s (r\<lparr> req_headers := h \<rparr>)
        | NotFound r \<Rightarrow> NotFound (r\<lparr> req_headers := h \<rparr>))"
proof -
  let ?req = "req\<lparr> req_originalUrl := req_url req \<rparr>"
  have comm: "req\<lparr> req_headers := h, req_originalUrl := req_url req \<rparr> = ?req\<lparr> req_headers := h \<rparr>"
    by (cases req) simp
  have "route_request mounts (?req\<lparr> req_headers := h \<rparr>)
     = map_option (\<lambda>(s, r). (s, r\<lparr> req_headers := h \<rparr>)) (route_request mounts ?req)"
    by (rule route_request_headers)
  then show ?thesis
    unfolding dispatch_def Let_def
    by (simp add: comm split: option.splits)
qed

text \<open>\<^verbatim>\<open>JSON.stringify\<close> never produces the two characters \<^verbatim>\<open>OK\<close>.\<close>

lemma digit_char_not_O: "d < 10 \<Longrightarrow> digit_char d \<noteq> CHR ''O''"
proof
  assume d: "d < 10" and eq: "digit_char d = CHR ''O''"
  from eq have "(of_char (digit_char d) :: nat) = of_char (CHR ''O'')" by simp
  with d show False by (simp add: digit_char_def)
qed

lemma show_nat_no_O: "CHR ''O'' \<notin> set (show_nat n)"
proof (induction n rule: show_nat.induct)
  case (1 n)
  show ?case
  proof (cases "n < 10")
    case True
    then show ?thesis using digit_char_not_O [of n] by (subst show_nat.simps) auto
  next
    case False
    moreover have "n mod 10 < 10" by simp
    ultimately show ?thesis
      using 1 digit_char_not_O [of "n mod 10"] by (subst show_nat.simps) auto
  qed
qed

lemma stringify_not_OK: "JSON_stringify v \<noteq> ''OK''"
proof (cases v)
  case (JNum i)
  have "CHR ''O'' \<notin> set (show_int i)"
    using show_nat_no_O by (simp add: show_int_def)
  then show ?thesis using JNum by auto
qed (auto simp: quote_def)

text \<open>The health-check script's flag is the conjunction of the results.\<close>

lemma all_healthy_loop_eq:
  "all_healthy_loop rs flag = (flag \<and> list_all (\<lambda>r. result_status r = healthy) rs)"
proof (induction rs arbitrary: flag)
  case Nil
  then show ?case by simp
next
  case (Cons r rs)
  show ?case
  proof (cases "result_status r")
    case healthy
    with Cons show ?thesis by simp
  next
    case unhealthy
    with Cons show ?thesis by simp
  qed
qed

lemma checkService_healthy:
  "(result_status (checkService P probe s) = healthy)
     = (\<exists>body v. probe (check_options s) = Ended body \<and> P body = Some v)"
  by (cases "probe (check_options s)")
     (auto simp: checkService_def split: option.splits)

section \<open>Properties\<close>

subsection \<open>C1: an unreachable backend\<close>

text \<open>
  With no backend listening and no environment variable set, \<^verbatim>\<open>POST /api/auth/login\<close> is
  answered with status 500, not 503.
\<close>

theorem C1_counterexample:
  "map fst (responses (trace (gateway default_registry dead_backend login_request))) = [500]
   \<and> map fst (responses (trace (gateway default_registry dead_backend login_request))) \<noteq> [503]"
  by (simp add: gateway_forward [OF dispatch_login] forward_failed dead_backend_def)

text \<open>
  C1, as the code has it: for every request on a route of one of the five routers, when
  the call to the backend ends without an HTTP response, the gateway answers once, with
  status 500 and the JSON body whose \<^verbatim>\<open>error\<close> is the service's display name followed by
  \<^verbatim>\<open>Unavailable\<close> and whose \<^verbatim>\<open>message\<close> says that the service could not be reached.
\<close>

theorem C1_unavailable:
  assumes "dispatch req = Forward svc req'"
      and "net rt (forward_config (reg svc) req') = Failed reason"
  shows "responses (trace (gateway reg rt req))
           = [(500, JObj [(''error'', JStr (display_name svc @ '' Unavailable'')),
                          (''message'', JStr (unavailable_message svc))])]"
  using assms by (cases svc) (simp_all add: gateway_forward forward_failed)

theorem C1_unavailable_witness:
  "dispatch login_request = Forward Auth login_routed
   \<and> net dead_backend (forward_config (default_registry Auth) login_routed)
       = Failed ''connect ECONNREFUSED 127.0.0.1:3001''
   \<and> responses (trace (gateway default_registry dead_backend login_request))
       = [(500, JObj [(''error'', JStr ''Auth Service Unavailable''),
                      (''message'', JStr ''Unable to connect to authentication service'')])]"
proof -
  have n: "net dead_backend (forward_config (default_registry Auth) login_routed)
       = Failed ''connect ECONNREFUSED 127.0.0.1:3001''"
    by (simp add: dead_backend_def)
  show ?thesis
    using C1_unavailable [where reg = default_registry, OF dispatch_login n] dispatch_login n
    by simp
qed

subsection \<open>C2: relaying the backend's answer\<close>

text \<open>
  \<^verbatim>\<open>res.json(v)\<close> writes \<^verbatim>\<open>JSON.stringify(v)\<close> as the body. A backend that answers 200 with
  the two bytes \<^verbatim>\<open>OK\<close>: the gateway answers with \<^verbatim>\<open>res.json\<close> of whatever value axios decoded
  the body to, and the JSON text of no value is \<^verbatim>\<open>OK\<close> (for the string it is \<^verbatim>\<open>"OK"\<close>, four
  bytes with the quotes).
\<close>

theorem C2_counterexample:
  "\<forall>decode.
     responses
       (trace (gateway default_registry
                 (answering_backend \<lparr> msg_status = 200, msg_body = ''OK'' \<rparr> decode)
                 login_request))
     = [(200, decode ''OK'')]
     \<and> JSON_stringify (decode ''OK'') \<noteq> ''OK''"
  by (simp add: gateway_forward [OF dispatch_login] forward_answered answering_backend_def
      stringify_not_OK)

text \<open>
  C2, as the code has it: for every request on a route of one of the five routers, when
  the backend answers with any status, the gateway answers once, with the backend's
  status and with \<^verbatim>\<open>res.json\<close> of \<^verbatim>\<open>response.data\<close>, the value axios decoded from the
  backend's body.
\<close>

theorem C2_relay:
  assumes "dispatch req = Forward svc req'"
      and "net rt (forward_config (reg svc) req') = Answered m"
  shows "responses (trace (gateway reg rt req))
           = [(msg_status m, transformResponse rt (msg_body m))]"
  using assms by (simp add: gateway_forward forward_answered)

theorem C2_relay_witness:
  "dispatch login_request = Forward Auth login_routed
   \<and> net (answering_backend \<lparr> msg_status = 404, msg_body = ''OK'' \<rparr> JStr)
         (forward_config (default_registry Auth) login_routed)
       = Answered \<lparr> msg_status = 404, msg_body = ''OK'' \<rparr>
   \<and> responses (trace (gateway default_registry
        (answering_backend \<lparr> msg_status = 404, msg_body = ''OK'' \<rparr> JStr) login_request))
       = [(404, JStr ''OK'')]"
proof -
  have n: "net (answering_backend \<lparr> msg_status = 404, msg_body = ''OK'' \<rparr> JStr)
         (forward_config (default_registry Auth) login_routed)
       = Answered \<lparr> msg_status = 404, msg_body = ''OK'' \<rparr>"
    by (simp add: answering_backend_def)
  show ?thesis
    using C2_relay [where reg = default_registry, OF dispatch_login n] dispatch_login n
    by (simp add: answering_backend_def)
qed

subsection \<open>C3: the outbound URL\<close>

text \<open>
  \<^verbatim>\<open>GET /api/tasks/abc123?verbose=true\<close> goes to the task service as
  \<^verbatim>\<open>/abc123?verbose=true\<close>: the handler appends \<^verbatim>\<open>req.url\<close>, which inside the router
  mounted on \<^verbatim>\<open>/api/tasks\<close> no longer has the mount path.
\<close>

theorem C3_counterexample:
  "map url (outbound_calls (trace (gateway default_registry dead_backend task_request)))
     = [''http://localhost:3002/abc123?verbose=true'']
   \<and> map url (outbound_calls (trace (gateway default_registry dead_backend task_request)))
     \<noteq> [default_registry Task @ ''/api/tasks/abc123?verbose=true'']"
  by (simp add: gateway_forward [OF dispatch_task] forward_calls forward_config_def
      task_routed_def default_registry_def load_registry_def service_url_def js_or_def)

text \<open>
  C3, as the code has it: for every forwarded request, the URL handed to axios is the
  service's base URL followed by the router-relative URL, which is the inbound URL
  without what the router's mount path matched, its query string unchanged.
\<close>

theorem C3_outbound_url:
  assumes "dispatch req = Forward svc req'"
  shows "map url (outbound_calls (trace (gateway reg rt req))) = [reg svc @ req_url req']
         \<and> (\<exists>prefix n. (prefix, svc) \<in> set mounts
               \<and> mount_removed prefix (pathname (req_url req)) = Some n
               \<and> req_url req' = trim_prefix n (req_url req))
         \<and> search (req_url req') = search (req_url req)"
proof -
  from dispatch_forward [OF assms] obtain prefix n where
    m: "(prefix, svc) \<in> set mounts"
    and r: "mount_removed prefix (pathname (req_url req)) = Some n"
    and q: "req' = req\<lparr> req_originalUrl := req_url req, req_url := trim_prefix n (req_url req) \<rparr>"
    by blast
  have "map url (outbound_calls (trace (gateway reg rt req))) = [reg svc @ req_url req']"
    using assms by (simp add: gateway_forward forward_calls forward_config_def)
  moreover have "req_url req' = trim_prefix n (req_url req)" using q by simp
  moreover have "search (req_url req') = search (req_url req)"
    using q search_trim_prefix [OF mount_removed_le [OF r]] by simp
  ultimately show ?thesis using m r by blast
qed

theorem C3_outbound_url_witness:
  "dispatch task_request = Forward Task task_routed
   \<and> map url (outbound_calls (trace (gateway default_registry dead_backend task_request)))
       = [''http://localhost:3002'' @ ''/abc123?verbose=true'']
   \<and> search (req_url task_routed) = ''?verbose=true''"
  using C3_outbound_url [where reg = default_registry and rt = dead_backend, OF dispatch_task]
    dispatch_task
  by (simp add: task_routed_def task_request_def search_def default_registry_def
      load_registry_def service_url_def js_or_def)

subsection \<open>C4: the outbound headers\<close>

text \<open>
  C4: the headers of the outbound call are the inbound headers with the three keys
  \<^verbatim>\<open>x-forwarded-for\<close>, \<^verbatim>\<open>x-forwarded-proto\<close> and \<^verbatim>\<open>x-forwarded-host\<close> set to \<^verbatim>\<open>req.ip\<close>,
  \<^verbatim>\<open>req.protocol\<close> and the inbound \<^verbatim>\<open>host\<close>: the names are the inbound names and these
  three, and every other name has its inbound value.
\<close>

theorem C4_forwarded_headers:
  assumes "c \<in> set (outbound_calls (trace (forwardToService reg rt svc req)))"
  shows "headers c ''x-forwarded-for'' = Some (req_ip req)
         \<and> headers c ''x-forwarded-proto'' = Some (Str (req_protocol req))
         \<and> headers c ''x-forwarded-host'' = Some (req_get req ''host'')
         \<and> dom (headers c)
             = dom (req_headers req)
               \<union> {''x-forwarded-for'', ''x-forwarded-proto'', ''x-forwarded-host''}
         \<and> (\<forall>k. k \<notin> {''x-forwarded-for'', ''x-forwarded-proto'', ''x-forwarded-host''}
               \<longrightarrow> headers c k = map_option Str (req_headers req k))"
proof -
  from assms have c: "c = forward_config (reg svc) req" by (simp add: forward_calls)
  have "dom (\<lambda>k. map_option Str (req_headers req k)) = dom (req_headers req)"
    by (auto simp: dom_def)
  then show ?thesis
    by (auto simp: c forward_config_def forward_headers_def)
qed

theorem C4_forwarded_headers_witness:
  "forward_config ''http://localhost:3001'' login_routed
     \<in> set (outbound_calls
              (trace (forwardToService default_registry dead_backend Auth login_routed)))
   \<and> headers (forward_config ''http://localhost:3001'' login_routed) ''x-forwarded-for''
       = Some (Str ''127.0.0.1'')
   \<and> headers (forward_config ''http://localhost:3001'' login_routed) ''x-forwarded-proto''
       = Some (Str ''http'')
   \<and> headers (forward_config ''http://localhost:3001'' login_routed) ''x-forwarded-host''
       = Some (Str ''localhost:3000'')
   \<and> headers (forward_config ''http://localhost:3001'' login_routed) ''host''
       = Some (Str ''localhost:3000'')
   \<and> dom (headers (forward_config ''http://localhost:3001'' login_routed))
       = {''host'', ''authorization'', ''x-forwarded-for'', ''x-forwarded-proto'',
          ''x-forwarded-host''}"
proof -
  have m: "forward_config ''http://localhost:3001'' login_routed
     \<in> set (outbound_calls
              (trace (forwardToService default_registry dead_backend Auth login_routed)))"
    by (simp add: forward_calls default_registry_def load_registry_def service_url_def js_or_def)
  have d: "dom (req_headers login_routed) = {''host'', ''authorization''}"
    by (auto simp: login_routed_def login_request_def)
  have h: "req_headers login_routed ''host'' = Some ''localhost:3000''"
    by (simp add: login_routed_def login_request_def)
  show ?thesis
    using C4_forwarded_headers [OF m] m d h
    by (auto simp: login_routed_def login_request_def req_get_def)
qed

subsection \<open>C5: health checks\<close>

text \<open>
  With every backend down, \<^verbatim>\<open>GET /health\<close> on the gateway makes no outbound call and
  answers 200.
\<close>

theorem C5_counterexample:
  "outbound_calls (trace (gateway default_registry dead_backend health_request)) = []
   \<and> map fst (responses (trace (gateway default_registry dead_backend health_request))) = [200]"
  by (simp add: gateway_health [OF dispatch_health] health_def)

text \<open>
  C5, as the code has it: \<^verbatim>\<open>GET /health\<close> on the gateway answers 200 with a fixed body and
  calls no backend. The aggregate check is the script's \<^verbatim>\<open>checkAllServices\<close>: one
  \<^verbatim>\<open>GET /health\<close> with a timeout of 5000 ms to \<^verbatim>\<open>localhost\<close> at each of the six ports 3000
  to 3005 (the gateway and the five backends), one result per process, healthy exactly
  when the probe ended with a body that parses as JSON, and \<^verbatim>\<open>allHealthy\<close> the conjunction
  of the results, which decides the exit code.
\<close>

theorem C5_health_checks:
  "(dispatch req = Health \<longrightarrow>
      gateway reg rt req = health rt
      \<and> outbound_calls (trace (gateway reg rt req)) = []
      \<and> map fst (responses (trace (gateway reg rt req))) = [200])
   \<and> requests (checkAllServices P probe)
       = map (\<lambda>p. \<lparr> opt_hostname = ''localhost'', opt_port = p, opt_path = ''/health'',
                    opt_method = GET, opt_timeout = 5000 \<rparr>)
           [3000, 3001, 3002, 3003, 3004, 3005]
   \<and> map result_name (results (checkAllServices P probe))
       = [''API Gateway'', ''Auth Service'', ''Task Service'', ''Notification Service'',
          ''Reporting Service'', ''Admin Service'']
   \<and> results (checkAllServices P probe) = map (checkService P probe) services
   \<and> (\<forall>s. (result_status (checkService P probe s) = healthy)
            = (\<exists>body v. probe (check_options s) = Ended body \<and> P body = Some v))
   \<and> allHealthy (checkAllServices P probe)
       = list_all (\<lambda>r. result_status r = healthy) (results (checkAllServices P probe))
   \<and> exit_code (checkAllServices P probe)
       = (if allHealthy (checkAllServices P probe) then 0 else 1)"
proof -
  have g: "dispatch req = Health \<longrightarrow>
      gateway reg rt req = health rt
      \<and> outbound_calls (trace (gateway reg rt req)) = []
      \<and> map fst (responses (trace (gateway reg rt req))) = [200]"
    by (simp add: gateway_health health_def)
  have r: "requests (checkAllServices P probe)
       = map (\<lambda>p. \<lparr> opt_hostname = ''localhost'', opt_port = p, opt_path = ''/health'',
                    opt_method = GET, opt_timeout = 5000 \<rparr>)
           [3000, 3001, 3002, 3003, 3004, 3005]"
    by (simp add: checkAllServices_def services_def check_options_def Let_def)
  have name: "result_name (checkService P probe s) = entry_name s" for s
    by (cases "probe (check_options s)") (simp_all add: checkService_def split: option.splits)
  have n: "map result_name (results (checkAllServices P probe))
       = [''API Gateway'', ''Auth Service'', ''Task Service'', ''Notification Service'',
          ''Reporting Service'', ''Admin Service'']"
    by (simp add: checkAllServices_def Let_def name services_def)
  have rs: "results (checkAllServices P probe) = map (checkService P probe) services"
    by (simp add: checkAllServices_def Let_def)
  have a: "allHealthy (checkAllServices P probe)
       = list_all (\<lambda>r. result_status r = healthy) (results (checkAllServices P probe))"
    by (simp add: checkAllServices_def Let_def all_healthy_loop_eq)
  have e: "exit_code (checkAllServices P probe)
       = (if allHealthy (checkAllServices P probe) then 0 else 1)"
    by (simp add: checkAllServices_def Let_def)
  from g r n rs a e checkService_healthy show ?thesis by blast
qed

theorem C5_health_checks_witness:
  "dispatch health_request = Health
   \<and> outbound_calls (trace (gateway default_registry dead_backend health_request)) = []
   \<and> map result_status (results (checkAllServices braces_only_parse slow_task_probe))
       = [healthy, healthy, unhealthy, healthy, healthy, healthy]
   \<and> allHealthy (checkAllServices braces_only_parse slow_task_probe) = False"
proof -
  have s: "map result_status (map (checkService braces_only_parse slow_task_probe) services)
       = [healthy, healthy, unhealthy, healthy, healthy, healthy]"
    by (simp add: services_def checkService_def check_options_def slow_task_probe_def
        braces_only_parse_def)
  have u: "\<not> list_all (\<lambda>r. result_status r = healthy)
             (map (checkService braces_only_parse slow_task_probe) services)"
    by (simp add: services_def checkService_def check_options_def slow_task_probe_def
        braces_only_parse_def)
  show ?thesis
    using C5_health_checks [of health_request default_registry dead_backend
        braces_only_parse slow_task_probe] dispatch_health s u
    by (simp add: health_def)
qed

subsection \<open>C6: requests on no registered route\<close>



subsection \<open>C7: one outbound call\<close>



subsection \<open>C8: the base URLs\<close>

text \<open>
  With \<^verbatim>\<open>AUTH_SERVICE_URL\<close> set to the empty string, the variable is set, and the base URL
  is the default.
\<close>

theorem C8_counterexample:
  "(Map.empty(''AUTH_SERVICE_URL'' \<mapsto> [])) (env_var Auth) = Some []
   \<and> load_registry (Map.empty(''AUTH_SERVICE_URL'' \<mapsto> [])) Auth = ''http://localhost:3001''"
  by (simp add: load_registry_def service_url_def js_or_def)

text \<open>
  C8, as the code has it: the base URL of each of the five services is the value of its
  environment variable when that is set and not empty, and its default
  (\<^verbatim>\<open>http://localhost:3001\<close> to \<^verbatim>\<open>http://localhost:3005\<close>) otherwise; the handlers forward
  to the URL resolved when the modules were loaded, whatever the environment is when
  the request arrives.
\<close>

theorem C8_service_url:
  "load_registry e s
     = (case e (env_var s) of
          None \<Rightarrow> default_url s
        | Some v \<Rightarrow> if v = [] then default_url s else v)
   \<and> map env_var all_services
       = [''AUTH_SERVICE_URL'', ''TASK_SERVICE_URL'', ''NOTIFICATION_SERVICE_URL'',
          ''REPORTING_SERVICE_URL'', ''ADMIN_SERVICE_URL'']
   \<and> map default_url all_services
       = [''http://localhost:3001'', ''http://localhost:3002'', ''http://localhost:3003'',
          ''http://localhost:3004'', ''http://localhost:3005'']
   \<and> map url (outbound_calls (trace (forwardToService (load_registry e) rt s req)))
       = [load_registry e s @ req_url req]"
  by (simp add: load_registry_def service_url_def js_or_def all_services_def forward_calls
      forward_config_def)

subsection \<open>C9: the Authorization header\<close>

text \<open>
  C9: the outbound call carries the inbound \<^verbatim>\<open>authorization\<close> header unchanged; a
  different token changes that header of the outbound call and nothing else, and does
  not change where the request is routed.
\<close>

theorem C9_authorization_relayed:
  assumes "c \<in> set (outbound_calls (trace (forwardToService reg rt svc req)))"
  shows "headers c ''authorization'' = map_option Str (req_headers req ''authorization'')
         \<and> outbound_calls (trace (forwardToService reg rt svc
              (req\<lparr> req_headers := (req_headers req)(''authorization'' \<mapsto> token) \<rparr>)))
             = [c\<lparr> headers := (headers c)(''authorization'' \<mapsto> Str token) \<rparr>]
         \<and> dispatch (req\<lparr> req_headers := (req_headers req)(''authorization'' \<mapsto> token) \<rparr>)
             = (case dispatch req of
                  Health \<Rightarrow> Health
                | Forward s r \<Rightarrow>
                    Forward s (r\<lparr> req_headers := (req_headers req)(''authorization'' \<mapsto> token) \<rparr>)
                | NotFound r \<Rightarrow>
                    NotFound (r\<lparr> req_headers := (req_headers req)(''authorization'' \<mapsto> token) \<rparr>))"
proof -
  from assms have c: "c = forward_config (reg svc) req" by (simp add: forward_calls)
  have a: "headers c ''authorization'' = map_option Str (req_headers req ''authorization'')"
    by (simp add: c forward_config_def forward_headers_def)
  have "forward_headers (req\<lparr> req_headers := (req_headers req)(''authorization'' \<mapsto> token) \<rparr>)
          = (forward_headers req)(''authorization'' \<mapsto> Str token)"
    by (rule ext) (simp add: forward_headers_def req_get_def)
  then have b: "forward_config (reg svc)
                  (req\<lparr> req_headers := (req_headers req)(''authorization'' \<mapsto> token) \<rparr>)
                = c\<lparr> headers := (headers c)(''authorization'' \<mapsto> Str token) \<rparr>"
    by (simp add: c forward_config_def)
  show ?thesis using a b by (simp add: forward_calls dispatch_headers)
qed

theorem C9_authorization_relayed_witness:
  "forward_config ''http://localhost:3001'' login_routed
     \<in> set (outbound_calls
              (trace (forwardToService default_registry dead_backend Auth login_routed)))
   \<and> headers (forward_config ''http://localhost:3001'' login_routed) ''authorization''
       = Some (Str ''Bearer abc'')"
proof -
  have m: "forward_config ''http://localhost:3001'' login_routed
     \<in> set (outbound_calls
              (trace (forwardToService default_registry dead_backend Auth login_routed)))"
    by (simp add: forward_calls default_registry_def load_registry_def service_url_def js_or_def)
  show ?thesis
    using C9_authorization_relayed [OF m] m
    by (simp add: login_routed_def login_request_def)
qed

subsection \<open>C10: one response, no escaping error\<close>


end
